theory Spec2Isabelle
  imports Main "HOL-Library.Word"
begin

section \<open>The NFT marketplace contract\<close>

text \<open>
  A shallow embedding of the contract \<open>NFTMarketplace\<close> (the auction-including variant,
  lines 1 to 390 of the Solidity source). Unsigned 256-bit integers are \<open>256 word\<close>,
  addresses are \<open>160 word\<close>, a Solidity \<open>mapping\<close> is a total function whose default
  value is the zero value of its range, and a function of the contract is a function from
  the world before the call to a result: either the value returned with the world after
  the call, or the error of the failing \<open>require\<close> with the world as it was at the moment
  the error was raised. The rollback that the execution environment performs on a revert
  is the business of \<open>transact\<close>.
\<close>

type_synonym address = "160 word"
type_synonym uint256 = "256 word"

subsection \<open>Data\<close>

record MarketItem =
  tokenId :: uint256
  seller :: address
  owner :: address
  price :: uint256
  sold :: bool

record Auction =
  startPrice :: uint256
  endTimestamp :: uint256
  highestBidder :: address
  highestBid :: uint256
  active :: bool

text \<open>
  The storage of the contract: its own state variables, followed by the state variables of
  the ERC721 base contract that the functions below read and write.
\<close>

record storage =
  tokenIds :: uint256
  itemsSold :: uint256
  listingPrice :: uint256
  marketplace_owner :: address
  idToMarketItem :: "uint256 \<Rightarrow> MarketItem"
  auctions :: "uint256 \<Rightarrow> Auction"
  bids :: "uint256 \<Rightarrow> address \<Rightarrow> uint256"
  owners :: "uint256 \<Rightarrow> address"
  balances :: "address \<Rightarrow> uint256"
  tokenApprovals :: "uint256 \<Rightarrow> address"
  operatorApprovals :: "address \<Rightarrow> address \<Rightarrow> bool"
  tokenURIs :: "uint256 \<Rightarrow> string"

datatype event = MarketItemCreated uint256 address address uint256 bool

text \<open>
  The world is the storage together with what lies outside it: the ether balance of every
  account (a natural number: the sum of all balances is bounded by the supply, so a credit
  never wraps), the log of emitted events, and the log of value transfers made by the
  contract. Each entry of \<open>sent\<close> records the recipient, the amount and the storage as
  it stood at the moment of the transfer, which is what code run by the recipient during
  the transfer would observe.
\<close>

record world = storage +
  ether :: "address \<Rightarrow> nat"
  events :: "event list"
  sent :: "(address \<times> uint256 \<times> storage) list"

text \<open>
  The environment of a call: the address of the contract, the caller, the value attached,
  the time, and what the accounts outside the contract do when they are handed something
  during the call: \<open>can_receive\<close> holds of the accounts that accept a plain transfer
  of ether (an account without code, or a contract whose receive function runs within the
  gas stipend), \<open>token_receiver\<close> of the accounts that accept a safe transfer of an
  asset (an account without code, or a contract that answers \<open>onERC721Received\<close>).
\<close>

record env =
  this_address :: address
  msg_sender :: address
  msg_value :: uint256
  block_timestamp :: uint256
  can_receive :: "address \<Rightarrow> bool"
  token_receiver :: "address \<Rightarrow> bool"

datatype error =
    InvalidPrice | FeeMismatch | PriceMismatch | NotOwner | NotAuthorized
  | NoActiveAuction | AuctionEnded | AuctionStillActive | BidTooLow | NothingToWithdraw
  | ERC721InvalidTokenId | ERC721IncorrectOwner | ERC721ZeroAddress | ERC721AlreadyMinted
  | ERC721NotApproved | ERC721ApprovalToOwner | ERC721ApproveToCaller | ERC721NonReceiver
  | URINonexistentToken | CounterDecrementOverflow
  | PanicArithmetic | PanicIndex
  | EtherTransferFailed | NonPayable | InsufficientFunds

datatype 'a result = Reverted error world | Returned 'a world

definition zero_item :: MarketItem where
  "zero_item = \<lparr>tokenId = 0, seller = 0, owner = 0, price = 0, sold = False\<rparr>"

definition zero_auction :: Auction where
  "zero_auction = \<lparr>startPrice = 0, endTimestamp = 0, highestBidder = 0, highestBid = 0,
     active = False\<rparr>"

text \<open>
  The constructor: \<open>owner = payable(msg.sender)\<close>, the listing price initialised to
  0.025 ether, every mapping empty. \<open>funds\<close> gives the ether of every account.
\<close>

definition deploy :: "address \<Rightarrow> (address \<Rightarrow> nat) \<Rightarrow> world" where
  "deploy deployer funds =
     \<lparr>tokenIds = 0, itemsSold = 0, listingPrice = 25000000000000000,
      marketplace_owner = deployer,
      idToMarketItem = (\<lambda>_. zero_item), auctions = (\<lambda>_. zero_auction),
      bids = (\<lambda>_ _. 0), owners = (\<lambda>_. 0), balances = (\<lambda>_. 0),
      tokenApprovals = (\<lambda>_. 0), operatorApprovals = (\<lambda>_ _. False),
      tokenURIs = (\<lambda>_. []),
      ether = funds, events = [], sent = []\<rparr>"

subsection \<open>The imported library\<close>

text \<open>
  \<open>Counters.sol\<close> and the ERC721 base contract are imported from OpenZeppelin Contracts
  and are not among the sources of the repository. The functions the contract calls are
  modelled after the 4.x releases of that library (the ones that have \<open>Counters.sol\<close>):
  \<open>increment\<close> adds one unchecked, \<open>decrement\<close> requires a positive value,
  \<open>ownerOf\<close> requires the token to exist, \<open>_mint\<close> requires a non-zero recipient and a
  token that does not exist, \<open>_transfer\<close> requires \<open>from\<close> to be the owner and \<open>to\<close> to be
  non-zero, clears the approval and moves one unit of balance unchecked, and
  \<open>_setTokenURI\<close> requires the token to exist.

  The contract is declared \<open>is ERC721URIStorage\<close>, so it also has the public functions
  of the base contract that write to storage: \<open>approve\<close>, \<open>setApprovalForAll\<close>,
  \<open>transferFrom\<close> and \<open>safeTransferFrom\<close> (its two overloads differ only in the
  data handed to the recipient). They are modelled after the same releases. The view
  functions of the base contract change nothing and are left out.
\<close>

definition Counters_decrement :: "uint256 \<Rightarrow> world \<Rightarrow> uint256 result" where
  "Counters_decrement v w =
     (if v > 0 then Returned (v - 1) w else Reverted CounterDecrementOverflow w)"

definition ownerOf :: "uint256 \<Rightarrow> world \<Rightarrow> address result" where
  "ownerOf tid w =
     (if owners w tid = 0 then Reverted ERC721InvalidTokenId w
      else Returned (owners w tid) w)"

definition ERC721_mint :: "address \<Rightarrow> uint256 \<Rightarrow> world \<Rightarrow> unit result" where
  "ERC721_mint to tid w =
     (if to = 0 then Reverted ERC721ZeroAddress w
      else if owners w tid \<noteq> 0 then Reverted ERC721AlreadyMinted w
      else Returned ()
             (w\<lparr>balances := (balances w)(to := balances w to + 1),
                owners := (owners w)(tid := to)\<rparr>))"

definition ERC721_transfer :: "address \<Rightarrow> address \<Rightarrow> uint256 \<Rightarrow> world \<Rightarrow> unit result" where
  "ERC721_transfer from to tid w =
     (case ownerOf tid w of
        Reverted e d \<Rightarrow> Reverted e d
      | Returned holder _ \<Rightarrow>
          if holder \<noteq> from then Reverted ERC721IncorrectOwner w
          else if to = 0 then Reverted ERC721ZeroAddress w
          else
            let b1 = (balances w)(from := balances w from - 1);
                b2 = b1(to := b1 to + 1)
            in Returned ()
                 (w\<lparr>tokenApprovals := (tokenApprovals w)(tid := 0),
                    balances := b2,
                    owners := (owners w)(tid := to)\<rparr>))"

definition ERC721_setTokenURI :: "uint256 \<Rightarrow> string \<Rightarrow> world \<Rightarrow> unit result" where
  "ERC721_setTokenURI tid uri w =
     (if owners w tid = 0 then Reverted URINonexistentToken w
      else Returned () (w\<lparr>tokenURIs := (tokenURIs w)(tid := uri)\<rparr>))"

definition isApprovedOrOwner :: "address \<Rightarrow> uint256 \<Rightarrow> world \<Rightarrow> bool result" where
  "isApprovedOrOwner spender tid w =
     (case ownerOf tid w of
        Reverted e d \<Rightarrow> Reverted e d
      | Returned holder _ \<Rightarrow>
          Returned (spender = holder \<or> operatorApprovals w holder spender \<or>
                    tokenApprovals w tid = spender) w)"

definition approve :: "env \<Rightarrow> address \<Rightarrow> uint256 \<Rightarrow> world \<Rightarrow> unit result" where
  "approve e to tid w =
     (case ownerOf tid w of
        Reverted x d \<Rightarrow> Reverted x d
      | Returned holder _ \<Rightarrow>
          if to = holder then Reverted ERC721ApprovalToOwner w
          else if \<not> (msg_sender e = holder \<or> operatorApprovals w holder (msg_sender e))
            then Reverted ERC721NotApproved w
          else Returned () (w\<lparr>tokenApprovals := (tokenApprovals w)(tid := to)\<rparr>))"

definition setApprovalForAll :: "env \<Rightarrow> address \<Rightarrow> bool \<Rightarrow> world \<Rightarrow> unit result" where
  "setApprovalForAll e spender approved w =
     (if msg_sender e = spender then Reverted ERC721ApproveToCaller w
      else Returned ()
             (w\<lparr>operatorApprovals := (operatorApprovals w)
                  (msg_sender e := (operatorApprovals w (msg_sender e))(spender := approved))\<rparr>))"

definition transferFrom :: "env \<Rightarrow> address \<Rightarrow> address \<Rightarrow> uint256 \<Rightarrow> world \<Rightarrow> unit result" where
  "transferFrom e from to tid w =
     (case isApprovedOrOwner (msg_sender e) tid w of
        Reverted x d \<Rightarrow> Reverted x d
      | Returned ok _ \<Rightarrow>
          if \<not> ok then Reverted ERC721NotApproved w
          else ERC721_transfer from to tid w)"

definition safeTransferFrom :: "env \<Rightarrow> address \<Rightarrow> address \<Rightarrow> uint256 \<Rightarrow> world \<Rightarrow> unit result" where
  "safeTransferFrom e from to tid w =
     (case isApprovedOrOwner (msg_sender e) tid w of
        Reverted x d \<Rightarrow> Reverted x d
      | Returned ok _ \<Rightarrow>
          if \<not> ok then Reverted ERC721NotApproved w
          else (case ERC721_transfer from to tid w of
                  Reverted x d \<Rightarrow> Reverted x d
                | Returned _ w1 \<Rightarrow>
                    if \<not> token_receiver e to then Reverted ERC721NonReceiver w1
                    else Returned () w1))"

text \<open>
  \<open>recipient.transfer(amount)\<close>: fails when the contract holds less than the amount
  or the recipient does not accept a plain transfer; otherwise moves the ether and logs
  the transfer with the storage of that moment.
\<close>

definition transfer :: "env \<Rightarrow> address \<Rightarrow> uint256 \<Rightarrow> world \<Rightarrow> unit result" where
  "transfer e recipient amount w =
     (if ether w (this_address e) < unat amount \<or> \<not> can_receive e recipient
      then Reverted EtherTransferFailed w
      else
        let e1 = (ether w)(this_address e := ether w (this_address e) - unat amount);
            e2 = e1(recipient := e1 recipient + unat amount)
        in Returned ()
             (w\<lparr>ether := e2,
                sent := sent w @ [(recipient, amount, storage.truncate w)]\<rparr>))"

subsection \<open>The functions of the contract\<close>

definition createMarketItem :: "env \<Rightarrow> uint256 \<Rightarrow> uint256 \<Rightarrow> world \<Rightarrow> unit result" where
  "createMarketItem e tid p w =
     (if \<not> p > 0 then Reverted InvalidPrice w
      else if msg_value e \<noteq> listingPrice w then Reverted FeeMismatch w
      else
        let w1 = w\<lparr>idToMarketItem := (idToMarketItem w)
                     (tid := \<lparr>tokenId = tid, seller = msg_sender e,
                              owner = this_address e, price = p, sold = False\<rparr>)\<rparr>
        in case ERC721_transfer (msg_sender e) (this_address e) tid w1 of
             Reverted x d \<Rightarrow> Reverted x d
           | Returned _ w2 \<Rightarrow>
               Returned ()
                 (w2\<lparr>events := events w2 @
                    [MarketItemCreated tid (msg_sender e) (this_address e) p False]\<rparr>))"

definition createToken :: "env \<Rightarrow> string \<Rightarrow> uint256 \<Rightarrow> world \<Rightarrow> uint256 result" where
  "createToken e tokenURI p w =
     (let w1 = w\<lparr>tokenIds := tokenIds w + 1\<rparr>;
          newTokenId = tokenIds w1
      in case ERC721_mint (msg_sender e) newTokenId w1 of
           Reverted x d \<Rightarrow> Reverted x d
         | Returned _ w2 \<Rightarrow>
            (case ERC721_setTokenURI newTokenId tokenURI w2 of
               Reverted x d \<Rightarrow> Reverted x d
             | Returned _ w3 \<Rightarrow>
                (case createMarketItem e newTokenId p w3 of
                   Reverted x d \<Rightarrow> Reverted x d
                 | Returned _ w4 \<Rightarrow> Returned newTokenId w4)))"

definition resellToken :: "env \<Rightarrow> uint256 \<Rightarrow> uint256 \<Rightarrow> world \<Rightarrow> unit result" where
  "resellToken e tid p w =
     (if owner (idToMarketItem w tid) \<noteq> msg_sender e then Reverted NotOwner w
      else if msg_value e \<noteq> listingPrice w then Reverted FeeMismatch w
      else
        let w1 = w\<lparr>idToMarketItem := (idToMarketItem w)
                     (tid := (idToMarketItem w tid)
                        \<lparr>seller := msg_sender e, owner := this_address e,
                         price := p, sold := False\<rparr>)\<rparr>
        in case Counters_decrement (itemsSold w1) w1 of
             Reverted x d \<Rightarrow> Reverted x d
           | Returned v _ \<Rightarrow>
               ERC721_transfer (msg_sender e) (this_address e) tid (w1\<lparr>itemsSold := v\<rparr>))"

definition createMarketSale :: "env \<Rightarrow> uint256 \<Rightarrow> world \<Rightarrow> unit result" where
  "createMarketSale e tid w =
     (if msg_value e \<noteq> price (idToMarketItem w tid) then Reverted PriceMismatch w
      else
        let w1 = w\<lparr>idToMarketItem := (idToMarketItem w)
                     (tid := (idToMarketItem w tid)\<lparr>owner := msg_sender e, sold := True\<rparr>),
                   itemsSold := itemsSold w + 1\<rparr>
        in case ERC721_transfer (this_address e) (msg_sender e) tid w1 of
             Reverted x d \<Rightarrow> Reverted x d
           | Returned _ w2 \<Rightarrow> transfer e (marketplace_owner w2) (listingPrice w2) w2)"

definition startAuction :: "env \<Rightarrow> uint256 \<Rightarrow> uint256 \<Rightarrow> uint256 \<Rightarrow> world \<Rightarrow> unit result" where
  "startAuction e tid sp et w =
     (case ownerOf tid w of
        Reverted x d \<Rightarrow> Reverted x d
      | Returned holder _ \<Rightarrow>
          if msg_sender e \<noteq> holder then Reverted NotAuthorized w
          else Returned ()
                 (w\<lparr>auctions := (auctions w)
                      (tid := \<lparr>startPrice = sp, endTimestamp = et, highestBidder = 0,
                               highestBid = 0, active = True\<rparr>)\<rparr>))"

definition finalizeAuction :: "env \<Rightarrow> uint256 \<Rightarrow> world \<Rightarrow> unit result" where
  "finalizeAuction e tid w =
     (if \<not> active (auctions w tid) then Reverted NoActiveAuction w
      else if \<not> block_timestamp e \<ge> endTimestamp (auctions w tid)
        then Reverted AuctionStillActive w
      else
        let w1 = w\<lparr>auctions := (auctions w)(tid := (auctions w tid)\<lparr>active := False\<rparr>)\<rparr>
        in if highestBidder (auctions w1 tid) \<noteq> 0 then
             (case ERC721_transfer (this_address e) (highestBidder (auctions w1 tid)) tid w1 of
                Reverted x d \<Rightarrow> Reverted x d
              | Returned _ w2 \<Rightarrow>
                  let w3 = w2\<lparr>bids := (bids w2)
                                (tid := (bids w2 tid)(highestBidder (auctions w2 tid) := 0))\<rparr>
                  in transfer e (seller (idToMarketItem w3 tid))
                       (highestBid (auctions w3 tid)) w3)
           else Returned () w1)"

definition placeBid :: "env \<Rightarrow> uint256 \<Rightarrow> world \<Rightarrow> unit result" where
  "placeBid e tid w =
     (if \<not> active (auctions w tid) then Reverted NoActiveAuction w
      else if \<not> block_timestamp e < endTimestamp (auctions w tid)
        then Reverted AuctionEnded w
      else if \<not> msg_value e > highestBid (auctions w tid) then Reverted BidTooLow w
      else
        let leader = highestBidder (auctions w tid);
            previous = highestBid (auctions w tid)
        in if leader \<noteq> 0 \<and> unat (bids w tid leader) + unat previous \<ge> 2 ^ 256
           then Reverted PanicArithmetic w
           else
             let w1 = (if leader \<noteq> 0
                       then w\<lparr>bids := (bids w)
                                (tid := (bids w tid)(leader := bids w tid leader + previous))\<rparr>
                       else w);
                 w2 = w1\<lparr>auctions := (auctions w1)
                           (tid := (auctions w1 tid)
                              \<lparr>highestBidder := msg_sender e, highestBid := msg_value e\<rparr>)\<rparr>
             in Returned ()
                  (w2\<lparr>bids := (bids w2)(tid := (bids w2 tid)(msg_sender e := msg_value e))\<rparr>))"

definition withdrawBid :: "env \<Rightarrow> uint256 \<Rightarrow> world \<Rightarrow> unit result" where
  "withdrawBid e tid w =
     (let bidAmount = bids w tid (msg_sender e)
      in if \<not> bidAmount > 0 then Reverted NothingToWithdraw w
         else
           let w1 = w\<lparr>bids := (bids w)(tid := (bids w tid)(msg_sender e := 0))\<rparr>
           in transfer e (msg_sender e) bidAmount w1)"

definition updateListingPrice :: "env \<Rightarrow> uint256 \<Rightarrow> world \<Rightarrow> unit result" where
  "updateListingPrice e p w =
     (if marketplace_owner w \<noteq> msg_sender e then Reverted NotAuthorized w
      else Returned () (w\<lparr>listingPrice := p\<rparr>))"

definition setTokenURI :: "env \<Rightarrow> uint256 \<Rightarrow> string \<Rightarrow> world \<Rightarrow> unit result" where
  "setTokenURI e tid uri w =
     (case ownerOf tid w of
        Reverted x d \<Rightarrow> Reverted x d
      | Returned holder _ \<Rightarrow>
          if msg_sender e \<noteq> holder then Reverted NotAuthorized w
          else ERC721_setTokenURI tid uri w)"

text \<open>
  \<open>fetchMarketItems\<close>: an array of \<open>_tokenIds.current() - _itemsSold.current()\<close> zero
  items is allocated (the subtraction is checked), and the loop copies every item held by
  the contract into the next free slot; writing past the end of the array is a panic.
\<close>

function fetch_loop ::
  "address \<Rightarrow> world \<Rightarrow> uint256 \<Rightarrow> uint256 \<Rightarrow> nat \<Rightarrow> MarketItem list \<Rightarrow> error + MarketItem list"
where
  "fetch_loop self w itemCount i currentIndex items =
     (if i < itemCount then
        (if owner (idToMarketItem w (i + 1)) = self then
           (if currentIndex < length items
            then fetch_loop self w itemCount (i + 1) (currentIndex + 1)
                   (items[currentIndex := idToMarketItem w (i + 1)])
            else Inl PanicIndex)
         else fetch_loop self w itemCount (i + 1) currentIndex items)
      else Inr items)"
  by pat_completeness auto
termination
  apply (relation "measure (\<lambda>(self, w, itemCount, i, currentIndex, items). unat itemCount - unat i)")
    apply simp
   apply (simp, unat_arith)
  apply (simp, unat_arith)
  done

declare fetch_loop.simps [simp del]

definition fetchMarketItems :: "address \<Rightarrow> world \<Rightarrow> error + MarketItem list" where
  "fetchMarketItems self w =
     (let itemCount = tokenIds w in
      if tokenIds w < itemsSold w then Inl PanicArithmetic
      else
        let unsoldItemCount = tokenIds w - itemsSold w
        in fetch_loop self w itemCount 0 0 (replicate (unat unsoldItemCount) zero_item))"

subsection \<open>Transactions\<close>

text \<open>
  A call from outside names one of the public functions that can write to storage: the
  nine declared in the contract and the four inherited from the base contract. A function that is not
  \<open>payable\<close> rejects a call that carries value; the caller must own the value attached;
  the value is credited to the contract before the body runs; and when the body reverts,
  the world is left as it was before the call.
\<close>

datatype call =
    CreateToken string uint256
  | ResellToken uint256 uint256
  | CreateMarketSale uint256
  | StartAuction uint256 uint256 uint256
  | FinalizeAuction uint256
  | PlaceBid uint256
  | WithdrawBid uint256
  | UpdateListingPrice uint256
  | SetTokenURI uint256 string
  | Approve address uint256
  | SetApprovalForAll address bool
  | TransferFrom address address uint256
  | SafeTransferFrom address address uint256

fun payable :: "call \<Rightarrow> bool" where
  "payable (CreateToken _ _) = True"
| "payable (ResellToken _ _) = True"
| "payable (CreateMarketSale _) = True"
| "payable (PlaceBid _) = True"
| "payable (UpdateListingPrice _) = True"
| "payable _ = False"

fun exec :: "env \<Rightarrow> call \<Rightarrow> world \<Rightarrow> unit result" where
  "exec e (CreateToken uri p) w =
     (case createToken e uri p w of
        Reverted x d \<Rightarrow> Reverted x d | Returned _ w' \<Rightarrow> Returned () w')"
| "exec e (ResellToken tid p) w = resellToken e tid p w"
| "exec e (CreateMarketSale tid) w = createMarketSale e tid w"
| "exec e (StartAuction tid sp et) w = startAuction e tid sp et w"
| "exec e (FinalizeAuction tid) w = finalizeAuction e tid w"
| "exec e (PlaceBid tid) w = placeBid e tid w"
| "exec e (WithdrawBid tid) w = withdrawBid e tid w"
| "exec e (UpdateListingPrice p) w = updateListingPrice e p w"
| "exec e (SetTokenURI tid uri) w = setTokenURI e tid uri w"
| "exec e (Approve to tid) w = approve e to tid w"
| "exec e (SetApprovalForAll spender approved) w = setApprovalForAll e spender approved w"
| "exec e (TransferFrom from to tid) w = transferFrom e from to tid w"
| "exec e (SafeTransferFrom from to tid) w = safeTransferFrom e from to tid w"

definition credit :: "env \<Rightarrow> world \<Rightarrow> world" where
  "credit e w =
     (let e1 = (ether w)(msg_sender e := ether w (msg_sender e) - unat (msg_value e))
      in w\<lparr>ether := e1(this_address e := e1 (this_address e) + unat (msg_value e))\<rparr>)"

definition transact :: "env \<Rightarrow> call \<Rightarrow> world \<Rightarrow> error option \<times> world" where
  "transact e c w =
     (if \<not> payable c \<and> msg_value e \<noteq> 0 then (Some NonPayable, w)
      else if ether w (msg_sender e) < unat (msg_value e) then (Some InsufficientFunds, w)
      else case exec e c (credit e w) of
             Reverted x d \<Rightarrow> (Some x, w)
           | Returned _ w' \<Rightarrow> (None, w'))"

text \<open>
  A run is a sequence of calls, each with its environment; a failed call leaves the world
  unchanged and the run goes on. Callers are accounts other than the zero address and the
  contract itself, and every call reaches the same contract.
\<close>

fun run :: "(env \<times> call) list \<Rightarrow> world \<Rightarrow> world" where
  "run [] w = w"
| "run ((e, c) # cs) w = run cs (snd (transact e c w))"

definition valid_env :: "address \<Rightarrow> env \<Rightarrow> bool" where
  "valid_env self e =
     (this_address e = self \<and> msg_sender e \<noteq> 0 \<and> msg_sender e \<noteq> self)"

text \<open>The world a result carries, whichever way the call ended.\<close>

definition final :: "'a result \<Rightarrow> world" where
  "final r = (case r of Reverted _ d \<Rightarrow> d | Returned _ v \<Rightarrow> v)"

subsection \<open>A concrete run\<close>

text \<open>
  The contract at address 100, deployed by account 1 (the operator); every account but
  the contract starts with one ether. Account 2 mints asset 1 at price 100, account 3 buys it, starts an
  auction that ends at time 1000 and relists the asset at price 200 (which hands custody
  back to the contract); account 4 bids 50 and account 5 bids 60.
\<close>

definition marketplace :: address where "marketplace = 100"
definition operator :: address where "operator = 1"
definition creator :: address where "creator = 2"
definition buyer :: address where "buyer = 3"
definition bidder_A :: address where "bidder_A = 4"
definition bidder_B :: address where "bidder_B = 5"

definition fee :: uint256 where "fee = 25000000000000000"

definition caller :: "address \<Rightarrow> uint256 \<Rightarrow> uint256 \<Rightarrow> env" where
  "caller a v t =
     \<lparr>this_address = marketplace, msg_sender = a, msg_value = v, block_timestamp = t,
      can_receive = (\<lambda>x. x \<noteq> marketplace), token_receiver = (\<lambda>x. x \<noteq> marketplace)\<rparr>"

definition genesis :: world where
  "genesis = deploy operator ((\<lambda>_. 10 ^ 18)(marketplace := 0))"

definition listed_trace :: "(env \<times> call) list" where
  "listed_trace = [(caller creator fee 0, CreateToken ''ipfs://1'' 100)]"

definition sold_trace :: "(env \<times> call) list" where
  "sold_trace = listed_trace @ [(caller buyer 100 0, CreateMarketSale 1)]"

definition auction_trace :: "(env \<times> call) list" where
  "auction_trace = sold_trace @ [(caller buyer 0 0, StartAuction 1 10 1000)]"

definition bidding_trace :: "(env \<times> call) list" where
  "bidding_trace = auction_trace @
     [(caller bidder_A 50 1, PlaceBid 1), (caller bidder_B 60 2, PlaceBid 1)]"

definition custody_trace :: "(env \<times> call) list" where
  "custody_trace = auction_trace @
     [(caller buyer fee 0, ResellToken 1 200),
      (caller bidder_A 50 1, PlaceBid 1), (caller bidder_B 60 2, PlaceBid 1)]"

subsection \<open>Vocabulary of the specification\<close>

text \<open>
  The ten precondition failures that the specification names; the remaining errors are
  raised by the imported library, by checked arithmetic or by the execution environment.
\<close>

fun precondition_error :: "error \<Rightarrow> bool" where
  "precondition_error InvalidPrice = True"
| "precondition_error FeeMismatch = True"
| "precondition_error PriceMismatch = True"
| "precondition_error NotOwner = True"
| "precondition_error NotAuthorized = True"
| "precondition_error NoActiveAuction = True"
| "precondition_error AuctionEnded = True"
| "precondition_error AuctionStillActive = True"
| "precondition_error BidTooLow = True"
| "precondition_error NothingToWithdraw = True"
| "precondition_error _ = False"

fun mints :: "call \<Rightarrow> bool" where
  "mints (CreateToken _ _) = True"
| "mints _ = False"

text \<open>
  Worlds reached from the run: after account 4 has withdrawn its escrow, after the auction
  has been finalized, after account 5 has outbid account 4, and the world in which a mint
  at price 0 is rejected. \<open>contest\<close> is the bidding of the specification's scenario.
\<close>

definition withdrawn :: world where
  "withdrawn = final (withdrawBid (caller bidder_A 0 3) 1 (run bidding_trace genesis))"

definition finalized :: world where
  "finalized = final (finalizeAuction (caller creator 0 1000) 1 (run custody_trace genesis))"

definition outbid :: world where
  "outbid = final (placeBid (caller bidder_B 60 2) 1
     (credit (caller bidder_B 60 2)
        (run (auction_trace @ [(caller bidder_A 50 1, PlaceBid 1)]) genesis)))"

definition rejected_mint :: world where
  "rejected_mint = final (createToken (caller creator fee 0) ''ipfs://1'' 0 genesis)"

definition contest :: "(env \<times> call) list" where
  "contest = [(caller bidder_A 50 1, PlaceBid 1), (caller bidder_B 40 2, PlaceBid 1),
     (caller bidder_B 60 2, PlaceBid 1)]"

subsection \<open>Accepted bids\<close>

text \<open>
  The bids on one asset that a run accepts, in order; \<open>starts\<close> recognises the calls
  that would open a new auction on the asset.
\<close>

fun starts :: "uint256 \<Rightarrow> call \<Rightarrow> bool" where
  "starts tid (StartAuction t _ _) = (t = tid)"
| "starts tid _ = False"

fun accepted_bids :: "uint256 \<Rightarrow> (env \<times> call) list \<Rightarrow> world \<Rightarrow> uint256 list" where
  "accepted_bids tid [] w = []"
| "accepted_bids tid ((e, c) # cs) w =
     (if c = PlaceBid tid \<and> fst (transact e c w) = None then [msg_value e] else []) @
     accepted_bids tid cs (snd (transact e c w))"

subsection \<open>Minted assets and the registry\<close>

text \<open>
  The ids handed out so far are 1 up to the counter. \<open>registry_inv\<close> holds in every
  world a run can reach within \<open>n\<close> calls: the counter has not passed \<open>n\<close>, and the
  asset registry knows no asset outside the ids handed out.
\<close>

definition minted :: "world \<Rightarrow> uint256 \<Rightarrow> bool" where
  "minted w i \<longleftrightarrow> 0 < i \<and> i \<le> tokenIds w"

definition registry_inv :: "nat \<Rightarrow> world \<Rightarrow> bool" where
  "registry_inv n w \<longleftrightarrow>
     unat (tokenIds w) \<le> n \<and> (\<forall>i. \<not> minted w i \<longrightarrow> owners w i = 0)"

subsection \<open>Runs through the inherited functions\<close>

text \<open>
  \<open>relisting_trace\<close>: after the sale of asset 1, account 2 mints asset 2 at price 300.
  \<open>handed_back_trace\<close>: account 3, who bought asset 1, then transfers it to the
  contract with \<open>transferFrom\<close>; \<open>rebought_trace\<close>: account 4 then buys asset 1 at
  its price. \<open>handed_over_trace\<close>: account 3, having bought asset 1, transfers it to
  account 5.
\<close>

definition relisting_trace :: "(env \<times> call) list" where
  "relisting_trace = sold_trace @ [(caller creator fee 0, CreateToken ''ipfs://2'' 300)]"

definition handed_back_trace :: "(env \<times> call) list" where
  "handed_back_trace = relisting_trace @ [(caller buyer 0 0, TransferFrom buyer marketplace 1)]"

definition rebought_trace :: "(env \<times> call) list" where
  "rebought_trace = handed_back_trace @ [(caller bidder_A 100 0, CreateMarketSale 1)]"

definition handed_over_trace :: "(env \<times> call) list" where
  "handed_over_trace = sold_trace @ [(caller buyer 0 0, TransferFrom buyer bidder_B 1)]"

section \<open>Properties\<close>

lemmas contract_defs = createToken_def createMarketItem_def resellToken_def
  createMarketSale_def startAuction_def finalizeAuction_def placeBid_def withdrawBid_def
  updateListingPrice_def setTokenURI_def ERC721_mint_def ERC721_transfer_def
  ERC721_setTokenURI_def ownerOf_def Counters_decrement_def transfer_def
  isApprovedOrOwner_def approve_def setApprovalForAll_def transferFrom_def
  safeTransferFrom_def

lemmas scenario_defs = marketplace_def operator_def creator_def buyer_def bidder_A_def
  bidder_B_def fee_def caller_def genesis_def deploy_def listed_trace_def sold_trace_def
  auction_trace_def bidding_trace_def custody_trace_def transact_def credit_def final_def
  relisting_trace_def handed_back_trace_def rebought_trace_def handed_over_trace_def

subsection \<open>The asset registry along a run\<close>

lemma le_succ_cases:
  "(t::256 word) + 1 \<noteq> 0 \<Longrightarrow> (0 < i \<and> i \<le> t + 1) = ((0 < i \<and> i \<le> t) \<or> i = t + 1)"
  by unat_arith

lemma unat_succ:
  "unat (t::256 word) < n \<Longrightarrow> n < 2 ^ 256 \<Longrightarrow> t + 1 \<noteq> 0 \<and> unat (t + 1) = Suc (unat t)"
proof -
  assume a: "unat t < n" "n < 2 ^ 256"
  then have "Suc (unat t) < 2 ^ 256" by simp
  then have "unat (t + 1) = Suc (unat t)"
    by (simp add: unat_word_ariths take_bit_nat_eq_self unsigned_of_nat)
  then show ?thesis by (metis Zero_not_Suc unsigned_0)
qed

lemma createToken_effect:
  "createToken e uri p v = Returned r v' \<Longrightarrow>
     msg_sender e \<noteq> 0 \<and> this_address e \<noteq> 0 \<and> 0 < p \<and> msg_value e = listingPrice v \<and>
     r = tokenIds v + 1 \<and> tokenIds v' = tokenIds v + 1 \<and> itemsSold v' = itemsSold v \<and>
     owners v (tokenIds v + 1) = 0 \<and>
     owners v' = (owners v)(tokenIds v + 1 := this_address e) \<and>
     idToMarketItem v' = (idToMarketItem v)
       (tokenIds v + 1 := \<lparr>tokenId = tokenIds v + 1, seller = msg_sender e,
          owner = this_address e, price = p, sold = False\<rparr>) \<and>
     events v' = events v @
       [MarketItemCreated (tokenIds v + 1) (msg_sender e) (this_address e) p False]"
  by (auto simp: createToken_def createMarketItem_def ERC721_mint_def ERC721_setTokenURI_def
      ERC721_transfer_def ownerOf_def Let_def split: if_splits result.splits)

lemma registry_frame:
  "exec e c v = Returned u v' \<Longrightarrow> \<not> mints c \<Longrightarrow>
     tokenIds v' = tokenIds v \<and> (\<forall>i. owners v i = 0 \<longrightarrow> owners v' i = 0)"
  by (cases c) (auto simp: contract_defs Let_def split: if_splits result.splits)

lemma credit_core:
  "tokenIds (credit e w) = tokenIds w" "itemsSold (credit e w) = itemsSold w"
  "idToMarketItem (credit e w) = idToMarketItem w" "owners (credit e w) = owners w"
  "listingPrice (credit e w) = listingPrice w" "events (credit e w) = events w"
  "marketplace_owner (credit e w) = marketplace_owner w"
  by (simp_all add: credit_def Let_def)

lemma registry_credit: "registry_inv n (credit e w) = registry_inv n w"
  by (simp add: registry_inv_def minted_def credit_core)

lemma registry_mono: "registry_inv n w \<Longrightarrow> n \<le> m \<Longrightarrow> registry_inv m w"
  by (simp add: registry_inv_def)

lemma registry_genesis: "registry_inv 0 (deploy d f)"
  by (simp add: registry_inv_def deploy_def)

lemma transact_success:
  "fst (transact e c w) = None \<Longrightarrow>
     exec e c (credit e w) = Returned () (snd (transact e c w))"
  by (auto simp: transact_def split: if_splits result.splits)

lemma transact_failure: "fst (transact e c w) \<noteq> None \<Longrightarrow> snd (transact e c w) = w"
  by (auto simp: transact_def split: if_splits result.splits)

lemma registry_step:
  assumes inv: "registry_inv n w" and n: "Suc n < 2 ^ 256"
  shows "registry_inv (Suc n) (snd (transact e c w))"
proof (cases "fst (transact e c w) = None")
  case False
  then have "snd (transact e c w) = w" by (rule transact_failure)
  with inv show ?thesis by (simp add: registry_mono)
next
  case True
  let ?v = "credit e w" and ?w' = "snd (transact e c w)"
  from True have ex: "exec e c ?v = Returned () ?w'" by (rule transact_success)
  from inv have le: "unat (tokenIds ?v) \<le> n"
    and un: "\<And>i. \<not> minted ?v i \<Longrightarrow> owners ?v i = 0"
    by (simp_all add: registry_inv_def minted_def credit_core)
  show ?thesis
  proof (cases "mints c")
    case False
    from registry_frame [OF ex False] have t: "tokenIds ?w' = tokenIds ?v"
      and z: "\<And>i. owners ?v i = 0 \<Longrightarrow> owners ?w' i = 0" by simp_all
    have "owners ?w' i = 0" if "\<not> minted ?w' i" for i
    proof -
      from that have "\<not> minted ?v i" by (simp add: minted_def t)
      then show ?thesis by (rule z [OF un])
    qed
    with le t show ?thesis by (simp add: registry_inv_def)
  next
    case True
    then obtain uri p where c: "c = CreateToken uri p" by (cases c) simp_all
    with ex obtain r where "createToken e uri p ?v = Returned r ?w'"
      by (auto split: result.splits)
    note eff = createToken_effect [OF this]
    let ?new = "tokenIds ?v + 1"
    from eff have t: "tokenIds ?w' = ?new" by simp
    from eff have o: "owners ?w' = (owners ?v)(?new := this_address e)" by simp
    from le n have nz: "?new \<noteq> 0" and su: "unat ?new = Suc (unat (tokenIds ?v))"
      using unat_succ [of "tokenIds ?v" "Suc n"] by simp_all
    have mint': "minted ?w' i \<longleftrightarrow> minted ?v i \<or> i = ?new" for i
      unfolding minted_def t using le_succ_cases [OF nz] by simp
    have "owners ?w' i = 0" if "\<not> minted ?w' i" for i
    proof -
      from that have "\<not> minted ?v i" "i \<noteq> ?new" by (simp_all add: mint')
      with un [of i] show ?thesis by (simp add: o)
    qed
    moreover have "unat (tokenIds ?w') \<le> Suc n" using le by (simp add: t su)
    ultimately show ?thesis by (simp add: registry_inv_def)
  qed
qed

lemma registry_run:
  "registry_inv n w \<Longrightarrow> n + length cs < 2 ^ 256 \<Longrightarrow>
     registry_inv (n + length cs) (run cs w)"
proof (induction cs arbitrary: n w)
  case Nil
  then show ?case by simp
next
  case (Cons a cs)
  obtain e c where a: "a = (e, c)" by (cases a)
  from Cons.prems(2) have n: "Suc n < 2 ^ 256" and n': "Suc n + length cs < 2 ^ 256"
    by simp_all
  from registry_step [OF Cons.prems(1) n]
  have "registry_inv (Suc n) (snd (transact e c w))" .
  from Cons.IH [OF this n'] show ?case by (simp add: a)
qed

lemma registry_reachable:
  "length cs < 2 ^ 256 \<Longrightarrow> registry_inv (length cs) (run cs (deploy d f))"
  using registry_run [OF registry_genesis, of cs d f] by simp

subsection \<open>Finalizing an auction\<close>


lemma custody_run_finalize:
  "finalizeAuction (caller creator 0 1000) 1 (run custody_trace genesis) = Returned () finalized"
  by (simp add: finalized_def scenario_defs contract_defs Let_def)



subsection \<open>Direct sale\<close>

lemma listed_run_sale:
  "createMarketSale (caller buyer 100 0) 1 (credit (caller buyer 100 0) (run listed_trace genesis)) =
     Returned () (run sold_trace genesis)"
  by (simp add: scenario_defs contract_defs Let_def)

text \<open>
  C7. \<open>createMarketSale\<close> fails with \<open>PriceMismatch\<close> unless the attached value equals
  the recorded price of the listing. When it succeeds, the listing has the caller as
  holder and is marked sold (its seller, price and id are untouched), the sold-count is
  one higher, custody in the asset registry moves from the contract to the caller, and
  the only ether that moves is the listing fee, from the contract to the operator: one
  transfer is logged, and no other account's balance changes, the seller's included.
\<close>

theorem buy_effect:
  "(msg_value e \<noteq> price (idToMarketItem w tid) \<longrightarrow>
      createMarketSale e tid w = Reverted PriceMismatch w) \<and>
   (createMarketSale e tid w = Returned () w' \<longrightarrow>
      msg_value e = price (idToMarketItem w tid) \<and>
      idToMarketItem w' = (idToMarketItem w)
        (tid := (idToMarketItem w tid)\<lparr>owner := msg_sender e, sold := True\<rparr>) \<and>
      itemsSold w' = itemsSold w + 1 \<and>
      owners w tid = this_address e \<and> owners w' = (owners w)(tid := msg_sender e) \<and>
      listingPrice w' = listingPrice w \<and>
      unat (listingPrice w) \<le> ether w (this_address e) \<and>
      ether w' =
        (let paid = (ether w)
               (this_address e := ether w (this_address e) - unat (listingPrice w))
         in paid(marketplace_owner w := paid (marketplace_owner w) + unat (listingPrice w))) \<and>
      (\<exists>s. sent w' = sent w @ [(marketplace_owner w, listingPrice w, s)]))"
  by (auto simp: createMarketSale_def ERC721_transfer_def ownerOf_def transfer_def Let_def
      split: if_splits result.splits)

theorem buy_effect_witness:
  "createMarketSale (caller buyer 100 0) 1
       (credit (caller buyer 100 0) (run listed_trace genesis)) =
     Returned () (run sold_trace genesis) \<and>
   owner (idToMarketItem (run sold_trace genesis) 1) = buyer \<and>
   sold (idToMarketItem (run sold_trace genesis) 1) \<and>
   itemsSold (run sold_trace genesis) = itemsSold (run listed_trace genesis) + 1 \<and>
   owners (run sold_trace genesis) 1 = buyer"
  using buy_effect [of "caller buyer 100 0" "credit (caller buyer 100 0) (run listed_trace genesis)"
      1 "run sold_trace genesis"] listed_run_sale
  by (simp add: caller_def credit_def)

subsection \<open>What a direct sale checks\<close>

text \<open>
  C9, as stated, fails: the asset with id 7 was never minted and its stored price is 0,
  yet buying it with value 0 fails in the custody transfer, which requires the token to
  exist and the contract to own it; the call leaves the world unchanged.
\<close>

theorem buy_unminted_counterexample:
  "price (idToMarketItem genesis 7) = 0 \<and> owners genesis 7 = 0 \<and> \<not> minted genesis 7 \<and>
   transact (caller buyer 0 0) (CreateMarketSale 7) genesis =
     (Some ERC721InvalidTokenId, genesis)"
  by (simp add: scenario_defs contract_defs Let_def zero_item_def minted_def)

lemma sale_iff:
  "(\<exists>w'. createMarketSale e tid w = Returned () w') \<longleftrightarrow>
      msg_value e = price (idToMarketItem w tid) \<and> owners w tid = this_address e \<and>
      this_address e \<noteq> 0 \<and> msg_sender e \<noteq> 0 \<and>
      unat (listingPrice w) \<le> ether w (this_address e) \<and>
      can_receive e (marketplace_owner w)"
  by (auto simp: createMarketSale_def ERC721_transfer_def ownerOf_def transfer_def Let_def
      split: if_splits result.splits)

lemma sale_unregistered:
  "owners w tid = 0 \<Longrightarrow>
     (\<exists>x d. createMarketSale e tid w = Reverted x d \<and>
         (x = PriceMismatch \<or> x = ERC721InvalidTokenId)) \<and>
     fst (transact e (CreateMarketSale tid) w) \<noteq> None \<and>
     snd (transact e (CreateMarketSale tid) w) = w"
  by (auto simp: createMarketSale_def ERC721_transfer_def ownerOf_def transfer_def Let_def
      transact_def credit_def split: if_splits result.splits)

lemma sale_marks:
  "createMarketSale e tid w = Returned () w' \<Longrightarrow>
      owner (idToMarketItem w' tid) = msg_sender e \<and> sold (idToMarketItem w' tid) \<and>
      itemsSold w' = itemsSold w + 1"
  by (auto simp: createMarketSale_def ERC721_transfer_def ownerOf_def transfer_def Let_def
      split: if_splits result.splits)

lemma handed_back_world:
  "sold (idToMarketItem (run handed_back_trace genesis) 1) \<and>
   owner (idToMarketItem (run handed_back_trace genesis) 1) = buyer \<and>
   owners (run handed_back_trace genesis) 1 = marketplace \<and>
   itemsSold (run handed_back_trace genesis) = 1"
  by (simp add: scenario_defs contract_defs Let_def)

lemma rebought_world:
  "tokenIds (run rebought_trace genesis) = 2 \<and> itemsSold (run rebought_trace genesis) = 2 \<and>
   idToMarketItem (run rebought_trace genesis) 1 =
     \<lparr>tokenId = 1, seller = creator, owner = bidder_A, price = 100, sold = True\<rparr> \<and>
   idToMarketItem (run rebought_trace genesis) 2 =
     \<lparr>tokenId = 2, seller = creator, owner = marketplace, price = 300, sold = False\<rparr>"
  by (simp add: scenario_defs contract_defs Let_def)

lemma rebought_accepted:
  "fst (transact (caller bidder_A 100 0) (CreateMarketSale 1) (run handed_back_trace genesis)) = None"
  by (simp add: scenario_defs contract_defs Let_def)

text \<open>
  C9, amended. The only check \<open>createMarketSale\<close> makes itself is that the attached
  value equals the stored price, but the custody transfer and the payment it performs can
  fail: the call succeeds exactly when the value equals the stored price, the asset
  registry names the contract as owner of the asset, the caller is not the zero address,
  the contract holds the listing fee and the operator accepts a plain transfer. So a buy
  of an asset the registry does not know fails, also with value 0 against the stored
  price 0, and changes nothing; and in every world reached from deployment by a run of
  calls, an id that was never minted is such an asset. Neither the sold flag nor the
  recorded holder is checked: a buy that succeeds records the caller as holder, marks the
  listing sold and adds one to the sold-count, whatever the listing said before; and a
  listing already marked sold can be bought again, as soon as the registry names the
  contract as owner again. In the run where account 3 has bought asset 1 and handed it
  back with \<open>transferFrom\<close>, the buy by account 4 succeeds and takes the sold-count
  from 1 to 2.
\<close>

theorem buy_succeeds_iff:
  "((\<exists>w'. createMarketSale e tid w = Returned () w') \<longleftrightarrow>
      msg_value e = price (idToMarketItem w tid) \<and> owners w tid = this_address e \<and>
      this_address e \<noteq> 0 \<and> msg_sender e \<noteq> 0 \<and>
      unat (listingPrice w) \<le> ether w (this_address e) \<and>
      can_receive e (marketplace_owner w)) \<and>
   (owners w tid = 0 \<longrightarrow>
      (\<exists>x d. createMarketSale e tid w = Reverted x d \<and>
         (x = PriceMismatch \<or> x = ERC721InvalidTokenId)) \<and>
      snd (transact e (CreateMarketSale tid) w) = w) \<and>
   (length cs < 2 ^ 256 \<and> \<not> minted (run cs (deploy d f)) tid \<longrightarrow>
      fst (transact e (CreateMarketSale tid) (run cs (deploy d f))) \<noteq> None \<and>
      snd (transact e (CreateMarketSale tid) (run cs (deploy d f))) = run cs (deploy d f)) \<and>
   (createMarketSale e tid w = Returned () w' \<longrightarrow>
      owner (idToMarketItem w' tid) = msg_sender e \<and> sold (idToMarketItem w' tid) \<and>
      itemsSold w' = itemsSold w + 1) \<and>
   (sold (idToMarketItem (run handed_back_trace genesis) 1) \<and>
    itemsSold (run handed_back_trace genesis) = 1 \<and>
    fst (transact (caller bidder_A 100 0) (CreateMarketSale 1)
          (run handed_back_trace genesis)) = None \<and>
    sold (idToMarketItem (run rebought_trace genesis) 1) \<and>
    owner (idToMarketItem (run rebought_trace genesis) 1) = bidder_A \<and>
    itemsSold (run rebought_trace genesis) = 2)"
proof (intro conjI impI)
  show "(\<exists>w'. createMarketSale e tid w = Returned () w') \<longleftrightarrow>
      msg_value e = price (idToMarketItem w tid) \<and> owners w tid = this_address e \<and>
      this_address e \<noteq> 0 \<and> msg_sender e \<noteq> 0 \<and>
      unat (listingPrice w) \<le> ether w (this_address e) \<and>
      can_receive e (marketplace_owner w)"
    by (rule sale_iff)
next
  assume z: "owners w tid = 0"
  from sale_unregistered [OF z, of e]
  show "\<exists>x d. createMarketSale e tid w = Reverted x d \<and>
         (x = PriceMismatch \<or> x = ERC721InvalidTokenId)"
    and "snd (transact e (CreateMarketSale tid) w) = w" by simp_all
next
  assume a: "length cs < 2 ^ 256 \<and> \<not> minted (run cs (deploy d f)) tid"
  then have "registry_inv (length cs) (run cs (deploy d f))"
    using registry_reachable by blast
  with a have z: "owners (run cs (deploy d f)) tid = 0" by (simp add: registry_inv_def)
  from sale_unregistered [OF z, of e]
  show "fst (transact e (CreateMarketSale tid) (run cs (deploy d f))) \<noteq> None"
    and "snd (transact e (CreateMarketSale tid) (run cs (deploy d f))) = run cs (deploy d f)"
    by simp_all
next
  assume ok: "createMarketSale e tid w = Returned () w'"
  from sale_marks [OF ok]
  show "owner (idToMarketItem w' tid) = msg_sender e" "sold (idToMarketItem w' tid)"
    "itemsSold w' = itemsSold w + 1" by simp_all
next
  show "sold (idToMarketItem (run handed_back_trace genesis) 1)"
    "itemsSold (run handed_back_trace genesis) = 1"
    using handed_back_world by simp_all
  show "fst (transact (caller bidder_A 100 0) (CreateMarketSale 1)
          (run handed_back_trace genesis)) = None"
    by (rule rebought_accepted)
  show "sold (idToMarketItem (run rebought_trace genesis) 1)"
    "owner (idToMarketItem (run rebought_trace genesis) 1) = bidder_A"
    "itemsSold (run rebought_trace genesis) = 2"
    using rebought_world by simp_all
qed

lemma sold_unminted_seven: "\<not> minted (run sold_trace genesis) 7"
proof -
  have "tokenIds (run sold_trace genesis) = 1"
    by (simp add: scenario_defs contract_defs Let_def)
  then show ?thesis by (simp add: minted_def word_le_nat_alt)
qed

theorem buy_succeeds_iff_witness:
  "\<not> minted (run sold_trace genesis) 7 \<and>
   fst (transact (caller buyer 0 0) (CreateMarketSale 7) (run sold_trace genesis)) \<noteq> None \<and>
   snd (transact (caller buyer 0 0) (CreateMarketSale 7) (run sold_trace genesis)) =
     run sold_trace genesis \<and>
   createMarketSale (caller buyer 100 0) 1
       (credit (caller buyer 100 0) (run listed_trace genesis)) =
     Returned () (run sold_trace genesis) \<and>
   sold (idToMarketItem (run sold_trace genesis) 1) \<and>
   owners (run sold_trace genesis) 7 = 0"
proof -
  have len: "length sold_trace < 2 ^ 256" by (simp add: sold_trace_def listed_trace_def)
  have g: "run sold_trace genesis =
      run sold_trace (deploy operator ((\<lambda>_. 10 ^ 18)(marketplace := 0)))"
    by (simp add: genesis_def)
  have z: "owners (run sold_trace genesis) 7 = 0"
    by (simp add: scenario_defs contract_defs Let_def)
  show ?thesis
    using buy_succeeds_iff [where e = "caller buyer 0 0" and tid = 7 and cs = sold_trace
        and d = operator and f = "(\<lambda>_. 10 ^ 18)(marketplace := 0)"
        and w = "run sold_trace genesis"]
      buy_succeeds_iff [where e = "caller buyer 100 0" and tid = 1
        and w = "credit (caller buyer 100 0) (run listed_trace genesis)"
        and w' = "run sold_trace genesis"]
      len sold_unminted_seven listed_run_sale z
    unfolding g [symmetric]
    by simp
qed

subsection \<open>Failed calls\<close>

text \<open>
  C3, as stated, fails for \<open>createToken\<close>: with price 0 the call is rejected with
  \<open>InvalidPrice\<close>, but by then the id counter has been incremented and the asset has
  been minted to the caller; the world at the moment of the error differs from the
  world before the call.
\<close>

theorem mint_mutates_before_check_counterexample:
  "createToken (caller creator fee 0) ''ipfs://1'' 0 genesis =
     Reverted InvalidPrice rejected_mint \<and>
   tokenIds genesis = 0 \<and> owners genesis 1 = 0 \<and>
   tokenIds rejected_mint = 1 \<and>
   owners rejected_mint 1 = creator"
  by (simp add: rejected_mint_def scenario_defs contract_defs Let_def)

lemma exec_precondition_first:
  "exec e c w = Reverted x d \<Longrightarrow> precondition_error x \<Longrightarrow> \<not> mints c \<Longrightarrow> d = w"
  by (cases c) (auto simp: contract_defs Let_def split: if_splits result.splits)

lemma mint_checks_late:
  "createToken e uri p w = Reverted x d \<Longrightarrow> x = InvalidPrice \<or> x = FeeMismatch \<Longrightarrow>
   d = w\<lparr>tokenIds := tokenIds w + 1,
         balances := (balances w)(msg_sender e := balances w (msg_sender e) + 1),
         owners := (owners w)(tokenIds w + 1 := msg_sender e),
         tokenURIs := (tokenURIs w)(tokenIds w + 1 := uri)\<rparr>"
  by (auto simp: contract_defs Let_def split: if_splits result.splits)

lemma genesis_bid_fails:
  "exec (caller bidder_A 50 1) (PlaceBid 1) genesis = Reverted NoActiveAuction genesis"
  by (simp add: scenario_defs contract_defs Let_def zero_auction_def)

lemma genesis_bid_rejected:
  "fst (transact (caller bidder_A 50 1) (PlaceBid 1) genesis) = Some NoActiveAuction"
  by (simp add: scenario_defs contract_defs Let_def zero_auction_def)

lemma genesis_mint_fails:
  "createToken (caller creator fee 0) ''ipfs://1'' 0 genesis =
     Reverted InvalidPrice rejected_mint"
  by (simp add: rejected_mint_def scenario_defs contract_defs Let_def)

text \<open>
  C3, amended. A call that fails, whatever the function and the error, leaves the whole
  world as it was before the call: the revert undoes what the body did. In every function
  but \<open>createToken\<close>, each of the ten named precondition failures is raised before any
  mutation. \<open>createToken\<close> raises \<open>InvalidPrice\<close> and \<open>FeeMismatch\<close> after it has
  incremented the id counter and minted the asset to the caller, and it is the revert that
  restores them.
\<close>

theorem failure_atomicity:
  "(fst (transact e c w) \<noteq> None \<longrightarrow> snd (transact e c w) = w) \<and>
   (exec e c w = Reverted x d \<and> precondition_error x \<and> \<not> mints c \<longrightarrow> d = w) \<and>
   (createToken e uri p w = Reverted x d \<and> (x = InvalidPrice \<or> x = FeeMismatch) \<longrightarrow>
      tokenIds d = tokenIds w + 1 \<and> owners d (tokenIds w + 1) = msg_sender e \<and> d \<noteq> w)"
proof (intro conjI impI)
  show "snd (transact e c w) = w" if "fst (transact e c w) \<noteq> None"
    using that by (auto simp: transact_def split: if_splits result.splits)
  show "d = w" if "exec e c w = Reverted x d \<and> precondition_error x \<and> \<not> mints c"
    using that exec_precondition_first by blast
next
  assume a: "createToken e uri p w = Reverted x d \<and> (x = InvalidPrice \<or> x = FeeMismatch)"
  then have d: "d = w\<lparr>tokenIds := tokenIds w + 1,
         balances := (balances w)(msg_sender e := balances w (msg_sender e) + 1),
         owners := (owners w)(tokenIds w + 1 := msg_sender e),
         tokenURIs := (tokenURIs w)(tokenIds w + 1 := uri)\<rparr>"
    using mint_checks_late by blast
  show "tokenIds d = tokenIds w + 1" by (simp add: d)
  show "owners d (tokenIds w + 1) = msg_sender e" by (simp add: d)
  have "tokenIds d \<noteq> tokenIds w" by (simp add: d)
  then show "d \<noteq> w" by auto
qed

theorem failure_atomicity_witness:
  "exec (caller bidder_A 50 1) (PlaceBid 1) genesis = Reverted NoActiveAuction genesis \<and>
   fst (transact (caller bidder_A 50 1) (PlaceBid 1) genesis) = Some NoActiveAuction \<and>
   snd (transact (caller bidder_A 50 1) (PlaceBid 1) genesis) = genesis \<and>
   createToken (caller creator fee 0) ''ipfs://1'' 0 genesis =
     Reverted InvalidPrice rejected_mint \<and>
   rejected_mint \<noteq> genesis"
  using failure_atomicity [where e = "caller bidder_A 50 1" and c = "PlaceBid 1" and w = genesis
      and x = NoActiveAuction and d = genesis]
    failure_atomicity [where e = "caller creator fee 0" and w = genesis and x = InvalidPrice
      and d = rejected_mint
      and uri = "''ipfs://1''" and p = 0]
    genesis_bid_fails genesis_bid_rejected genesis_mint_fails
  by simp

subsection \<open>Order of effects\<close>

lemma truncate_fields:
  "storage.truncate v = storage.truncate w \<Longrightarrow>
     bids v = bids w \<and> auctions v = auctions w \<and> owners v = owners w \<and>
     idToMarketItem v = idToMarketItem w \<and> itemsSold v = itemsSold w \<and>
     tokenIds v = tokenIds w \<and> listingPrice v = listingPrice w \<and>
     marketplace_owner v = marketplace_owner w"
  by (simp add: storage.truncate_def)

lemma withdraw_order:
  "withdrawBid e tid w = Returned () w' \<Longrightarrow>
     sent w' = sent w @ [(msg_sender e, bids w tid (msg_sender e), storage.truncate w')] \<and>
     bids w' tid (msg_sender e) = 0"
  by (auto simp: withdrawBid_def transfer_def Let_def storage.truncate_def split: if_splits)

lemma finalize_order:
  "finalizeAuction e tid w = Returned () w' \<Longrightarrow>
     (sent w' = sent w \<or>
      sent w' = sent w @ [(seller (idToMarketItem w tid), highestBid (auctions w tid),
                           storage.truncate w')]) \<and>
     \<not> active (auctions w' tid)"
  by (auto simp: finalizeAuction_def ERC721_transfer_def ownerOf_def transfer_def Let_def
      storage.truncate_def split: if_splits result.splits)

lemma sale_order:
  "createMarketSale e tid w = Returned () w' \<Longrightarrow>
     sent w' = sent w @ [(marketplace_owner w, listingPrice w, storage.truncate w')] \<and>
     owners w' tid = msg_sender e"
  by (auto simp: createMarketSale_def ERC721_transfer_def ownerOf_def transfer_def Let_def
      storage.truncate_def split: if_splits result.splits)

lemma sale_needs_custody:
  "owners v tid \<noteq> this_address e \<Longrightarrow> \<exists>x d. createMarketSale e tid v = Reverted x d"
  by (auto simp: createMarketSale_def ERC721_transfer_def ownerOf_def transfer_def Let_def
      split: if_splits result.splits)

lemma bidding_run_withdrawn:
  "withdrawBid (caller bidder_A 0 3) 1 (run bidding_trace genesis) = Returned () withdrawn"
  by (simp add: withdrawn_def scenario_defs contract_defs Let_def)

text \<open>
  C4. In \<open>withdrawBid\<close>, \<open>finalizeAuction\<close> and \<open>createMarketSale\<close> every write
  to storage precedes the value transfer: the storage logged at the moment of the transfer
  is the storage the call ends with. So in any world with that storage, which is what a
  recipient called during the transfer would act on, a second \<open>withdrawBid\<close> by the
  same caller fails with \<open>NothingToWithdraw\<close>, a second \<open>finalizeAuction\<close> by anyone
  fails with \<open>NoActiveAuction\<close>, and a second \<open>createMarketSale\<close> by anyone fails
  (the buyer not being the contract itself).
\<close>

theorem effects_before_transfer:
  "(withdrawBid e tid w = Returned () w' \<longrightarrow>
      sent w' = sent w @ [(msg_sender e, bids w tid (msg_sender e), storage.truncate w')] \<and>
      (\<forall>v. storage.truncate v = storage.truncate w' \<longrightarrow>
           withdrawBid e tid v = Reverted NothingToWithdraw v)) \<and>
   (finalizeAuction e tid w = Returned () w' \<longrightarrow>
      (sent w' = sent w \<or>
       sent w' = sent w @ [(seller (idToMarketItem w tid), highestBid (auctions w tid),
                            storage.truncate w')]) \<and>
      (\<forall>v e2. storage.truncate v = storage.truncate w' \<longrightarrow>
           finalizeAuction e2 tid v = Reverted NoActiveAuction v)) \<and>
   (createMarketSale e tid w = Returned () w' \<longrightarrow>
      sent w' = sent w @ [(marketplace_owner w, listingPrice w, storage.truncate w')] \<and>
      (\<forall>v e2. storage.truncate v = storage.truncate w' \<and>
           this_address e2 = this_address e \<and> msg_sender e \<noteq> this_address e \<longrightarrow>
           (\<exists>x d. createMarketSale e2 tid v = Reverted x d)))"
proof (intro conjI impI allI)
  assume ok: "withdrawBid e tid w = Returned () w'"
  from withdraw_order [OF ok]
  show "sent w' = sent w @ [(msg_sender e, bids w tid (msg_sender e), storage.truncate w')]"
    by simp
  fix v :: world assume "storage.truncate v = storage.truncate w'"
  then have "bids v = bids w'" using truncate_fields by blast
  with withdraw_order [OF ok] show "withdrawBid e tid v = Reverted NothingToWithdraw v"
    by (simp add: withdrawBid_def)
next
  assume ok: "finalizeAuction e tid w = Returned () w'"
  from finalize_order [OF ok]
  show "sent w' = sent w \<or>
       sent w' = sent w @ [(seller (idToMarketItem w tid), highestBid (auctions w tid),
                            storage.truncate w')]"
    by simp
  fix v :: world and e2 :: env assume "storage.truncate v = storage.truncate w'"
  then have "auctions v = auctions w'" using truncate_fields by blast
  with finalize_order [OF ok] show "finalizeAuction e2 tid v = Reverted NoActiveAuction v"
    by (simp add: finalizeAuction_def)
next
  assume ok: "createMarketSale e tid w = Returned () w'"
  from sale_order [OF ok]
  show "sent w' = sent w @ [(marketplace_owner w, listingPrice w, storage.truncate w')]"
    by simp
  fix v :: world and e2 :: env
  assume a: "storage.truncate v = storage.truncate w' \<and>
           this_address e2 = this_address e \<and> msg_sender e \<noteq> this_address e"
  then have "owners v = owners w'" using truncate_fields by blast
  with sale_order [OF ok] a have "owners v tid \<noteq> this_address e2" by simp
  then show "\<exists>x d. createMarketSale e2 tid v = Reverted x d"
    by (rule sale_needs_custody)
qed

theorem effects_before_transfer_witness:
  "withdrawBid (caller bidder_A 0 3) 1 (run bidding_trace genesis) = Returned () withdrawn \<and>
   withdrawBid (caller bidder_A 0 3) 1 withdrawn = Reverted NothingToWithdraw withdrawn \<and>
   finalizeAuction (caller creator 0 1000) 1 (run custody_trace genesis) =
     Returned () finalized \<and>
   finalizeAuction (caller creator 0 1000) 1 finalized = Reverted NoActiveAuction finalized \<and>
   createMarketSale (caller buyer 100 0) 1
       (credit (caller buyer 100 0) (run listed_trace genesis)) =
     Returned () (run sold_trace genesis) \<and>
   (\<exists>x d. createMarketSale (caller bidder_A 100 0) 1 (run sold_trace genesis) = Reverted x d)"
proof -
  have env: "this_address (caller bidder_A 100 0) = this_address (caller buyer 100 0)"
    "msg_sender (caller buyer 100 0) \<noteq> this_address (caller buyer 100 0)"
    by (simp_all add: caller_def buyer_def marketplace_def)
  show ?thesis
    using effects_before_transfer [of "caller bidder_A 0 3" 1 "run bidding_trace genesis"
        withdrawn]
      effects_before_transfer [of "caller creator 0 1000" 1 "run custody_trace genesis"
        finalized]
      effects_before_transfer [of "caller buyer 100 0" 1
        "credit (caller buyer 100 0) (run listed_trace genesis)" "run sold_trace genesis"]
      bidding_run_withdrawn custody_run_finalize listed_run_sale env
    by blast
qed

subsection \<open>Escrow\<close>

text \<open>
  C1. The claim holds of the bookkeeping the documentation describes and fails on the
  code. After account 4 bids 50 on asset 1, its escrow entry and the highest bid are both
  50, twice the value received. After account 5 outbids it with 60, the entry of account
  4 is 100, not 50: \<open>placeBid\<close> first records the leader's own bid in its escrow
  entry and later adds the same bid again when the leader is outbid. \<open>withdrawBid\<close>
  then pays account 4 the 100, having received 50 from it.
\<close>

theorem escrow_double_credit:
  "bids (run (auction_trace @ [(caller bidder_A 50 1, PlaceBid 1)]) genesis) 1 bidder_A = 50 \<and>
   highestBid (auctions (run (auction_trace @ [(caller bidder_A 50 1, PlaceBid 1)]) genesis) 1) = 50 \<and>
   highestBid (auctions (run bidding_trace genesis) 1) = 60 \<and>
   bids (run bidding_trace genesis) 1 bidder_A = 100 \<and>
   bids (run bidding_trace genesis) 1 bidder_B = 60 \<and>
   fst (transact (caller bidder_A 0 3) (WithdrawBid 1) (run bidding_trace genesis)) = None \<and>
   ether (snd (transact (caller bidder_A 0 3) (WithdrawBid 1) (run bidding_trace genesis))) bidder_A =
     ether (run bidding_trace genesis) bidder_A + 100 \<and>
   bids (snd (transact (caller bidder_A 0 3) (WithdrawBid 1) (run bidding_trace genesis))) 1 bidder_A = 0"
  by (simp add: scenario_defs contract_defs Let_def)

subsection \<open>Bidding\<close>

lemma step_highest:
  "\<not> starts tid c \<Longrightarrow>
     (c = PlaceBid tid \<and> fst (transact e c w) = None \<longrightarrow>
        highestBid (auctions w tid) < msg_value e \<and>
        highestBid (auctions (snd (transact e c w)) tid) = msg_value e) \<and>
     (\<not> (c = PlaceBid tid \<and> fst (transact e c w) = None) \<longrightarrow>
        highestBid (auctions (snd (transact e c w)) tid) = highestBid (auctions w tid))"
  by (cases c)
    (auto simp: transact_def credit_def contract_defs Let_def split: if_splits result.splits)

lemma accepted_increasing:
  "\<forall>(e, c) \<in> set cs. \<not> starts tid c \<Longrightarrow>
     sorted_wrt (<) (accepted_bids tid cs w) \<and>
     (\<forall>v \<in> set (accepted_bids tid cs w). highestBid (auctions w tid) < v)"
proof (induction cs arbitrary: w)
  case Nil
  then show ?case by simp
next
  case (Cons a cs)
  obtain e c where a: "a = (e, c)" by (cases a)
  let ?w1 = "snd (transact e c w)"
  from Cons.prems a have ns: "\<not> starts tid c" and rest: "\<forall>(e, c) \<in> set cs. \<not> starts tid c"
    by auto
  note IH = Cons.IH [OF rest, of ?w1]
  note st = step_highest [OF ns, of e w]
  show ?case
  proof (cases "c = PlaceBid tid \<and> fst (transact e c w) = None")
    case True
    then have c: "c = PlaceBid tid" and ok: "fst (transact e c w) = None" by blast+
    have unfold: "accepted_bids tid (a # cs) w = msg_value e # accepted_bids tid cs ?w1"
      by (simp add: a c ok [unfolded c])
    from True st have up: "highestBid (auctions w tid) < msg_value e"
      and now: "highestBid (auctions ?w1 tid) = msg_value e" by blast+
    from IH now have tl: "\<forall>v \<in> set (accepted_bids tid cs ?w1). msg_value e < v" by simp
    with up have "\<forall>v \<in> set (accepted_bids tid cs ?w1). highestBid (auctions w tid) < v"
      by (meson less_trans)
    with IH tl up show ?thesis unfolding unfold by simp
  next
    case False
    with st have "highestBid (auctions ?w1 tid) = highestBid (auctions w tid)" by blast
    moreover have "accepted_bids tid (a # cs) w = accepted_bids tid cs ?w1"
      using False by (auto simp: a)
    ultimately show ?thesis using IH by simp
  qed
qed

lemma place_bid_effect:
  "placeBid e tid w = Returned () w' \<Longrightarrow>
     highestBid (auctions w tid) < msg_value e \<and>
     auctions w' = (auctions w)
       (tid := (auctions w tid)\<lparr>highestBidder := msg_sender e, highestBid := msg_value e\<rparr>) \<and>
     bids w' = (bids w)
       (tid := (if highestBidder (auctions w tid) \<noteq> 0
                then (bids w tid)(highestBidder (auctions w tid) :=
                       bids w tid (highestBidder (auctions w tid)) + highestBid (auctions w tid))
                else bids w tid)(msg_sender e := msg_value e))"
  by (auto simp: placeBid_def Let_def split: if_splits)

lemma outbid_run:
  "placeBid (caller bidder_B 60 2) 1
     (credit (caller bidder_B 60 2) (run (auction_trace @ [(caller bidder_A 50 1, PlaceBid 1)]) genesis))
   = Returned () outbid"
  by (simp add: outbid_def scenario_defs contract_defs Let_def)

lemma contest_accepted:
  "accepted_bids 1 contest (run auction_trace genesis) = [50, 60]"
  by (simp add: contest_def scenario_defs contract_defs Let_def)

lemma contest_one_auction: "\<forall>(e, c) \<in> set contest. \<not> starts 1 c"
  by (simp add: contest_def)

text \<open>
  C2. \<open>placeBid\<close> fails with \<open>NoActiveAuction\<close> when the auction is not active, with
  \<open>AuctionEnded\<close> when the current time is not before the end time, and with
  \<open>BidTooLow\<close> when the attached value is not greater than the highest bid (a tie
  included); in each case nothing has been written. When it succeeds, the value exceeds
  the previous highest bid, the escrow entry of the previous leader (if there is one) is
  increased by the previous highest bid, the caller becomes the leader with the attached
  value as highest bid, and the caller's own escrow entry is then set to the attached
  value. Over any run of calls that does not start the auction of the asset anew, the
  accepted bids on the asset are strictly increasing.
\<close>

theorem place_bid_rules:
  "(\<not> active (auctions w tid) \<longrightarrow> placeBid e tid w = Reverted NoActiveAuction w) \<and>
   (active (auctions w tid) \<and> \<not> block_timestamp e < endTimestamp (auctions w tid) \<longrightarrow>
      placeBid e tid w = Reverted AuctionEnded w) \<and>
   (active (auctions w tid) \<and> block_timestamp e < endTimestamp (auctions w tid) \<and>
    msg_value e \<le> highestBid (auctions w tid) \<longrightarrow>
      placeBid e tid w = Reverted BidTooLow w) \<and>
   (placeBid e tid w = Returned () w' \<longrightarrow>
      highestBid (auctions w tid) < msg_value e \<and>
      auctions w' = (auctions w)
        (tid := (auctions w tid)\<lparr>highestBidder := msg_sender e, highestBid := msg_value e\<rparr>) \<and>
      bids w' = (bids w)
        (tid := (if highestBidder (auctions w tid) \<noteq> 0
                 then (bids w tid)(highestBidder (auctions w tid) :=
                        bids w tid (highestBidder (auctions w tid)) + highestBid (auctions w tid))
                 else bids w tid)(msg_sender e := msg_value e))) \<and>
   ((\<forall>(e, c) \<in> set cs. \<not> starts tid c) \<longrightarrow> sorted_wrt (<) (accepted_bids tid cs w))"
proof (intro conjI impI)
  assume "placeBid e tid w = Returned () w'"
  from place_bid_effect [OF this]
  show "highestBid (auctions w tid) < msg_value e"
    and "auctions w' = (auctions w)
        (tid := (auctions w tid)\<lparr>highestBidder := msg_sender e, highestBid := msg_value e\<rparr>)"
    and "bids w' = (bids w)
        (tid := (if highestBidder (auctions w tid) \<noteq> 0
                 then (bids w tid)(highestBidder (auctions w tid) :=
                        bids w tid (highestBidder (auctions w tid)) + highestBid (auctions w tid))
                 else bids w tid)(msg_sender e := msg_value e))"
    by blast+
next
  assume "\<forall>(e, c) \<in> set cs. \<not> starts tid c"
  then show "sorted_wrt (<) (accepted_bids tid cs w)"
    using accepted_increasing by blast
qed (simp_all add: placeBid_def leD)

theorem place_bid_rules_witness:
  "placeBid (caller bidder_B 60 2) 1
     (credit (caller bidder_B 60 2) (run (auction_trace @ [(caller bidder_A 50 1, PlaceBid 1)]) genesis))
     = Returned () outbid \<and>
   accepted_bids 1 contest (run auction_trace genesis) = [50, 60] \<and>
   sorted_wrt (<) (accepted_bids 1 contest (run auction_trace genesis)) \<and>
   highestBid (auctions outbid 1) = 60 \<and> highestBidder (auctions outbid 1) = bidder_B"
  using place_bid_rules [of
      "credit (caller bidder_B 60 2) (run (auction_trace @ [(caller bidder_A 50 1, PlaceBid 1)]) genesis)"
      1 "caller bidder_B 60 2" outbid contest]
    place_bid_rules [of "run auction_trace genesis" 1 "caller bidder_B 60 2" outbid contest]
    outbid_run contest_accepted contest_one_auction
  by (simp add: caller_def)

subsection \<open>Minting\<close>

lemma inv_fresh:
  assumes inv: "registry_inv n w" and n: "Suc n < 2 ^ 256"
  shows "\<not> minted w (tokenIds w + 1)" and "owners w (tokenIds w + 1) = 0"
    and "0 < tokenIds w + 1"
    and "\<forall>i. minted w i \<longrightarrow> i < tokenIds w + 1"
    and "\<forall>i. owners w i \<noteq> 0 \<longrightarrow> i < tokenIds w + 1"
proof -
  from inv have le: "unat (tokenIds w) \<le> n"
    and un0: "\<And>i. \<not> minted w i \<Longrightarrow> owners w i = 0"
    by (simp_all add: registry_inv_def)
  with n have un: "unat (tokenIds w + 1) = Suc (unat (tokenIds w))"
    using unat_succ [of "tokenIds w" "Suc n"] by simp
  then show fresh: "\<not> minted w (tokenIds w + 1)"
    by (simp add: minted_def word_le_nat_alt)
  from un0 [OF fresh] show "owners w (tokenIds w + 1) = 0" .
  from un show "0 < tokenIds w + 1" by (simp add: word_less_nat_alt)
  have below: "i < tokenIds w + 1" if "minted w i" for i
    using that un by (simp add: minted_def word_le_nat_alt word_less_nat_alt)
  then show "\<forall>i. minted w i \<longrightarrow> i < tokenIds w + 1" by blast
  have "i < tokenIds w + 1" if "owners w i \<noteq> 0" for i
  proof -
    from that un0 [of i] have "minted w i" by blast
    then show ?thesis by (rule below)
  qed
  then show "\<forall>i. owners w i \<noteq> 0 \<longrightarrow> i < tokenIds w + 1" by blast
qed

lemma createToken_rejects:
  assumes s: "msg_sender e \<noteq> 0" and fresh: "owners w (tokenIds w + 1) = 0"
  shows "(\<not> 0 < p \<longrightarrow> (\<exists>x. createToken e uri p w = Reverted InvalidPrice x)) \<and>
         (0 < p \<and> msg_value e \<noteq> listingPrice w \<longrightarrow>
            (\<exists>x. createToken e uri p w = Reverted FeeMismatch x))"
  using s fresh
  by (simp add: createToken_def createMarketItem_def ERC721_mint_def ERC721_setTokenURI_def
      Let_def)

lemma sold_valid: "\<forall>(e, c) \<in> set sold_trace. valid_env marketplace e"
  by (simp add: sold_trace_def listed_trace_def valid_env_def caller_def
      marketplace_def creator_def buyer_def)

lemma second_mint_run:
  "createToken (caller creator fee 0) ''ipfs://2'' 300
     (credit (caller creator fee 0) (run sold_trace genesis)) =
   Returned 2 (run relisting_trace genesis)"
  by (simp add: relisting_trace_def scenario_defs contract_defs Let_def)

text \<open>
  C8. In a world reached from deployment by a run of calls of the contract's public
  functions, the inherited ones included (fewer than \<open>2 ^ 256 - 1\<close> calls, from accounts
  other than the zero address and the contract), \<open>createToken\<close>
  fails with \<open>InvalidPrice\<close> unless the price is positive and with \<open>FeeMismatch\<close>
  unless the attached value is the listing fee. When it succeeds, the id it returns is the
  counter plus one, is greater than every id minted before and than the id of every asset
  the registry knows, and was not in use; the listing recorded under it has the caller as
  seller, the contract as holder, the given price and is not sold; the registry names the
  contract as owner of the new asset; and one event \<open>MarketItemCreated\<close> with the id,
  the caller, the contract, the price and \<open>false\<close> is appended to the log.
\<close>

theorem mint_and_list:
  assumes "self \<noteq> 0" and "\<forall>(e, c) \<in> set cs. valid_env self e"
    and "Suc (length cs) < 2 ^ 256" and "valid_env self e"
    and "w = credit e (run cs (deploy d f))"
  shows "(\<not> 0 < p \<longrightarrow> (\<exists>x. createToken e uri p w = Reverted InvalidPrice x)) \<and>
         (0 < p \<and> msg_value e \<noteq> listingPrice w \<longrightarrow>
            (\<exists>x. createToken e uri p w = Reverted FeeMismatch x)) \<and>
         (createToken e uri p w = Returned r w' \<longrightarrow>
            0 < p \<and> msg_value e = listingPrice w \<and>
            r = tokenIds w + 1 \<and> tokenIds w' = r \<and>
            (\<forall>i. minted w i \<longrightarrow> i < r) \<and> (\<forall>i. owners w i \<noteq> 0 \<longrightarrow> i < r) \<and>
            \<not> minted w r \<and> owners w r = 0 \<and> minted w' r \<and>
            idToMarketItem w' r =
              \<lparr>tokenId = r, seller = msg_sender e, owner = self, price = p, sold = False\<rparr> \<and>
            owners w' r = self \<and>
            events w' = events w @ [MarketItemCreated r (msg_sender e) self p False])"
proof -
  from assms(3) have len: "length cs < 2 ^ 256" by simp
  have "registry_inv (length cs) (run cs (deploy d f))"
    using len by (rule registry_reachable)
  then have inv: "registry_inv (length cs) w" by (simp add: assms(5) registry_credit)
  note fresh = inv_fresh [OF inv assms(3)]
  from assms(4) have self: "this_address e = self" and s0: "msg_sender e \<noteq> 0"
    by (simp_all add: valid_env_def)
  note rej = createToken_rejects [OF s0 fresh(2), of p uri]
  have succ: "0 < p \<and> msg_value e = listingPrice w \<and>
            r = tokenIds w + 1 \<and> tokenIds w' = r \<and>
            (\<forall>i. minted w i \<longrightarrow> i < r) \<and> (\<forall>i. owners w i \<noteq> 0 \<longrightarrow> i < r) \<and>
            \<not> minted w r \<and> owners w r = 0 \<and> minted w' r \<and>
            idToMarketItem w' r =
              \<lparr>tokenId = r, seller = msg_sender e, owner = self, price = p, sold = False\<rparr> \<and>
            owners w' r = self \<and>
            events w' = events w @ [MarketItemCreated r (msg_sender e) self p False]"
    if ok: "createToken e uri p w = Returned r w'"
  proof (intro conjI)
    note eff = createToken_effect [OF ok]
    from eff show "0 < p" "msg_value e = listingPrice w" by simp_all
    from eff show r: "r = tokenIds w + 1" by simp
    from eff show t': "tokenIds w' = r" unfolding r by simp
    from fresh(4) show "\<forall>i. minted w i \<longrightarrow> i < r" unfolding r .
    from fresh(5) show "\<forall>i. owners w i \<noteq> 0 \<longrightarrow> i < r" unfolding r .
    from fresh(1) show "\<not> minted w r" unfolding r .
    from fresh(2) show "owners w r = 0" unfolding r .
    from fresh(3) show "minted w' r" unfolding minted_def t' r by simp
    from eff have "idToMarketItem w' = (idToMarketItem w)
       (tokenIds w + 1 := \<lparr>tokenId = tokenIds w + 1, seller = msg_sender e,
          owner = this_address e, price = p, sold = False\<rparr>)" by simp
    then show "idToMarketItem w' r =
        \<lparr>tokenId = r, seller = msg_sender e, owner = self, price = p, sold = False\<rparr>"
      by (simp add: r self)
    from eff have "owners w' = (owners w)(tokenIds w + 1 := this_address e)" by simp
    then show "owners w' r = self" by (simp add: r self)
    from eff have "events w' = events w @
       [MarketItemCreated (tokenIds w + 1) (msg_sender e) (this_address e) p False]"
      by simp
    then show "events w' = events w @ [MarketItemCreated r (msg_sender e) self p False]"
      by (simp add: r self)
  qed
  show ?thesis
    by (rule conjI [OF conjunct1 [OF rej] conjI [OF conjunct2 [OF rej] impI]]) (rule succ)
qed

theorem mint_and_list_witness:
  "createToken (caller creator fee 0) ''ipfs://2'' 300
     (credit (caller creator fee 0) (run sold_trace genesis)) =
     Returned 2 (run relisting_trace genesis) \<and>
   idToMarketItem (run relisting_trace genesis) 2 =
     \<lparr>tokenId = 2, seller = creator, owner = marketplace, price = 300, sold = False\<rparr> \<and>
   owners (run relisting_trace genesis) 2 = marketplace \<and>
   events (run relisting_trace genesis) =
     events (credit (caller creator fee 0) (run sold_trace genesis)) @
       [MarketItemCreated 2 creator marketplace 300 False]"
proof -
  have "marketplace \<noteq> 0" by (simp add: marketplace_def)
  moreover have "Suc (length sold_trace) < 2 ^ 256"
    by (simp add: sold_trace_def listed_trace_def)
  moreover have "valid_env marketplace (caller creator fee 0)"
    by (simp add: valid_env_def caller_def marketplace_def creator_def)
  moreover have "credit (caller creator fee 0) (run sold_trace genesis) =
      credit (caller creator fee 0)
        (run sold_trace (deploy operator ((\<lambda>_. 10 ^ 18)(marketplace := 0))))"
    by (simp add: genesis_def)
  moreover have "msg_sender (caller creator fee 0) = creator" by (simp add: caller_def)
  ultimately show ?thesis
    using mint_and_list [where self = marketplace and cs = sold_trace
        and e = "caller creator fee 0" and d = operator
        and f = "(\<lambda>_. 10 ^ 18)(marketplace := 0)" and p = 300 and uri = "''ipfs://2''"
        and r = 2 and w' = "run relisting_trace genesis"
        and w = "credit (caller creator fee 0) (run sold_trace genesis)"]
      sold_valid second_mint_run
    by simp
qed

subsection \<open>The listings on offer\<close>

lemma fetch_rebought:
  "fetchMarketItems marketplace (run rebought_trace genesis) = Inl PanicIndex"
  by (simp add: fetchMarketItems_def rebought_world fetch_loop.simps marketplace_def bidder_A_def)

text \<open>
  C5. The claim states what \<open>fetchMarketItems\<close> is documented to return, and the code
  does not deliver it. The function sizes its array as the id counter minus the
  sold-count, where its siblings \<open>fetchMyNFTs\<close> and \<open>fetchItemsCreated\<close> count the
  matching listings in a loop of their own; and \<open>createMarketSale\<close> adds to the
  sold-count on every success, also for a listing that is already sold. In the run where
  account 2 mints assets 1 and 2, account 3 buys asset 1 and transfers it back to the
  contract with the inherited \<open>transferFrom\<close>, and account 4 buys asset 1 again, the
  counter is 2 and the sold-count is 2, so the array has no slot; asset 2 is held by the
  contract and not sold, and \<open>fetchMarketItems\<close> fails with an index panic instead of
  returning its listing.
\<close>

theorem unsold_view_panics:
  "tokenIds (run rebought_trace genesis) = 2 \<and> itemsSold (run rebought_trace genesis) = 2 \<and>
   owner (idToMarketItem (run rebought_trace genesis) 2) = marketplace \<and>
   \<not> sold (idToMarketItem (run rebought_trace genesis) 2) \<and>
   fetchMarketItems marketplace (run rebought_trace genesis) = Inl PanicIndex"
  by (simp add: rebought_world fetch_rebought)

subsection \<open>Relisting\<close>

text \<open>
  C10, as stated, fails: after account 3 has bought asset 1 and transferred it to account
  5 with the inherited \<open>transferFrom\<close>, it is still the recorded holder of the listing;
  its call of \<open>resellToken\<close> with new price 0 and the listing fee attached fails in the
  custody transfer and leaves the world unchanged.
\<close>

theorem relist_moved_counterexample:
  "owner (idToMarketItem (run handed_over_trace genesis) 1) = buyer \<and>
   listingPrice (run handed_over_trace genesis) = fee \<and>
   transact (caller buyer fee 0) (ResellToken 1 0) (run handed_over_trace genesis) =
     (Some ERC721IncorrectOwner, run handed_over_trace genesis)"
  by (simp add: scenario_defs contract_defs Let_def)

lemma resell_iff:
  "(\<exists>w'. resellToken e tid p w = Returned () w') \<longleftrightarrow>
      owner (idToMarketItem w tid) = msg_sender e \<and> msg_value e = listingPrice w \<and>
      itemsSold w \<noteq> 0 \<and> owners w tid = msg_sender e \<and> msg_sender e \<noteq> 0 \<and>
      this_address e \<noteq> 0"
  by (auto simp: resellToken_def Counters_decrement_def ERC721_transfer_def ownerOf_def Let_def
      word_neq_0_conv split: if_splits result.splits)

lemma resell_effect:
  "resellToken e tid p w = Returned () w' \<Longrightarrow>
     idToMarketItem w' = (idToMarketItem w)
       (tid := (idToMarketItem w tid)\<lparr>seller := msg_sender e, owner := this_address e,
          price := p, sold := False\<rparr>) \<and>
     itemsSold w' = itemsSold w - 1 \<and> owners w' = (owners w)(tid := this_address e) \<and>
     listingPrice w' = listingPrice w \<and> marketplace_owner w' = marketplace_owner w \<and>
     ether w' = ether w \<and> this_address e \<noteq> 0"
  by (auto simp: resellToken_def Counters_decrement_def ERC721_transfer_def ownerOf_def Let_def
      split: if_splits result.splits)

lemma credit_this:
  "msg_sender e \<noteq> this_address e \<Longrightarrow>
     ether (credit e w) (this_address e) = ether w (this_address e) + unat (msg_value e)"
  by (simp add: credit_def Let_def)

lemma credit_zero: "msg_value e = 0 \<Longrightarrow> ether (credit e w) = ether w"
  by (simp add: credit_def Let_def)

lemma credit_frame:
  "price (idToMarketItem (credit e w) tid) = price (idToMarketItem w tid)"
  "owners (credit e w) = owners w" "listingPrice (credit e w) = listingPrice w"
  by (simp_all add: credit_def Let_def)

lemma relist_zero_effect:
  assumes tx: "fst (transact e (ResellToken tid 0) w) = None"
  shows "resellToken e tid 0 (credit e w) = Returned () (snd (transact e (ResellToken tid 0) w))"
    and "idToMarketItem (snd (transact e (ResellToken tid 0) w)) tid =
      (idToMarketItem w tid)\<lparr>seller := msg_sender e, owner := this_address e,
          price := 0, sold := False\<rparr>"
proof -
  let ?v = "credit e w" and ?w' = "snd (transact e (ResellToken tid 0) w)"
  from tx have "exec e (ResellToken tid 0) ?v = Returned () ?w'" by (rule transact_success)
  then show ok: "resellToken e tid 0 ?v = Returned () ?w'" by simp
  from resell_effect [OF ok] show "idToMarketItem ?w' tid =
      (idToMarketItem w tid)\<lparr>seller := msg_sender e, owner := this_address e,
          price := 0, sold := False\<rparr>" by (simp add: credit_core)
qed

lemma relist_then_buy:
  assumes tx: "fst (transact e (ResellToken tid 0) w) = None"
    and ss: "msg_sender e \<noteq> this_address e"
    and e2: "this_address e2 = this_address e" "msg_sender e2 \<noteq> 0" "msg_value e2 = 0"
      "can_receive e2 (marketplace_owner w)"
  shows "fst (transact e2 (CreateMarketSale tid) (snd (transact e (ResellToken tid 0) w))) = None"
proof -
  let ?v = "credit e w" and ?w' = "snd (transact e (ResellToken tid 0) w)"
  note ok = relist_zero_effect(1) [OF tx] and item = relist_zero_effect(2) [OF tx]
  note eff = resell_effect [OF ok]
  from ok have "\<exists>x. resellToken e tid 0 ?v = Returned () x" by blast
  then have fee: "msg_value e = listingPrice ?v" by (simp add: resell_iff)
  from eff have own: "owners ?w' tid = this_address e" and t0: "this_address e \<noteq> 0"
    and lp: "listingPrice ?w' = listingPrice ?v" and eth: "ether ?w' = ether ?v"
    and op: "marketplace_owner ?w' = marketplace_owner w"
    by (simp_all add: credit_core)
  have bal: "unat (listingPrice ?w') \<le> ether ?w' (this_address e)"
    using credit_this [OF ss, of w] by (simp add: eth lp fee [symmetric])
  let ?x = "credit e2 ?w'"
  have "msg_value e2 = price (idToMarketItem ?x tid)"
    by (simp add: credit_frame item e2(3))
  moreover have "owners ?x tid = this_address e2" by (simp add: credit_frame own e2(1))
  moreover have "this_address e2 \<noteq> 0" using t0 by (simp add: e2(1))
  moreover have "unat (listingPrice ?x) \<le> ether ?x (this_address e2)"
    using bal by (simp add: credit_frame credit_zero [OF e2(3)] e2(1))
  moreover have "can_receive e2 (marketplace_owner ?x)"
    using e2(4) by (simp add: credit_core op)
  ultimately have "\<exists>x'. createMarketSale e2 tid ?x = Returned () x'"
    using e2(2) by (simp add: sale_iff)
  then obtain x' where "createMarketSale e2 tid ?x = Returned () x'" by blast
  then show ?thesis by (simp add: transact_def e2(3))
qed

text \<open>
  C10, amended. \<open>resellToken\<close> has no requirement on the new price. It succeeds exactly
  when the recorded holder of the listing is the caller, the attached value is the listing
  fee, the sold-count is not zero, and the asset registry names the caller as owner of the
  asset (neither the caller nor the contract being the zero address); it then records the
  new price, whatever it is, marks the listing unsold with the caller as seller and the
  contract as holder, takes one from the sold-count and gives custody to the contract.
  After a successful call with new price 0 (by a caller other than the contract) the price
  of the listing is 0, and a buy of the asset with attached value 0 by any account but
  the zero address succeeds, provided the operator accepts a plain transfer.
\<close>

theorem relist_rules:
  "((\<exists>w'. resellToken e tid p w = Returned () w') \<longleftrightarrow>
      owner (idToMarketItem w tid) = msg_sender e \<and> msg_value e = listingPrice w \<and>
      itemsSold w \<noteq> 0 \<and> owners w tid = msg_sender e \<and> msg_sender e \<noteq> 0 \<and>
      this_address e \<noteq> 0) \<and>
   (resellToken e tid p w = Returned () w' \<longrightarrow>
      idToMarketItem w' tid =
        (idToMarketItem w tid)\<lparr>seller := msg_sender e, owner := this_address e,
           price := p, sold := False\<rparr> \<and>
      itemsSold w' = itemsSold w - 1 \<and> owners w' tid = this_address e) \<and>
   (fst (transact e (ResellToken tid 0) w) = None \<and> msg_sender e \<noteq> this_address e \<longrightarrow>
      price (idToMarketItem (snd (transact e (ResellToken tid 0) w)) tid) = 0 \<and>
      owner (idToMarketItem (snd (transact e (ResellToken tid 0) w)) tid) = this_address e \<and>
      \<not> sold (idToMarketItem (snd (transact e (ResellToken tid 0) w)) tid) \<and>
      (\<forall>e2. this_address e2 = this_address e \<and> msg_sender e2 \<noteq> 0 \<and> msg_value e2 = 0 \<and>
            can_receive e2 (marketplace_owner w) \<longrightarrow>
            fst (transact e2 (CreateMarketSale tid)
                  (snd (transact e (ResellToken tid 0) w))) = None))"
proof (intro conjI impI allI)
  show "(\<exists>w'. resellToken e tid p w = Returned () w') \<longleftrightarrow>
      owner (idToMarketItem w tid) = msg_sender e \<and> msg_value e = listingPrice w \<and>
      itemsSold w \<noteq> 0 \<and> owners w tid = msg_sender e \<and> msg_sender e \<noteq> 0 \<and>
      this_address e \<noteq> 0"
    by (rule resell_iff)
next
  assume ok: "resellToken e tid p w = Returned () w'"
  from resell_effect [OF ok]
  show "idToMarketItem w' tid =
        (idToMarketItem w tid)\<lparr>seller := msg_sender e, owner := this_address e,
           price := p, sold := False\<rparr>"
    and "itemsSold w' = itemsSold w - 1" and "owners w' tid = this_address e"
    by simp_all
next
  assume a: "fst (transact e (ResellToken tid 0) w) = None \<and> msg_sender e \<noteq> this_address e"
  then have tx: "fst (transact e (ResellToken tid 0) w) = None"
    and ss: "msg_sender e \<noteq> this_address e" by simp_all
  from relist_zero_effect(2) [OF tx]
  show "price (idToMarketItem (snd (transact e (ResellToken tid 0) w)) tid) = 0"
    and "owner (idToMarketItem (snd (transact e (ResellToken tid 0) w)) tid) = this_address e"
    and "\<not> sold (idToMarketItem (snd (transact e (ResellToken tid 0) w)) tid)"
    by simp_all
  fix e2 :: env
  assume b: "this_address e2 = this_address e \<and> msg_sender e2 \<noteq> 0 \<and> msg_value e2 = 0 \<and>
            can_receive e2 (marketplace_owner w)"
  with relist_then_buy [OF tx ss, of e2]
  show "fst (transact e2 (CreateMarketSale tid) (snd (transact e (ResellToken tid 0) w))) = None"
    by simp
qed

lemma sold_run_relist:
  "fst (transact (caller buyer fee 0) (ResellToken 1 0) (run sold_trace genesis)) = None"
  by (simp add: scenario_defs contract_defs Let_def)

lemma sold_run_operator: "marketplace_owner (run sold_trace genesis) = operator"
  by (simp add: scenario_defs contract_defs Let_def)

theorem relist_rules_witness:
  "fst (transact (caller buyer fee 0) (ResellToken 1 0) (run sold_trace genesis)) = None \<and>
   price (idToMarketItem
     (snd (transact (caller buyer fee 0) (ResellToken 1 0) (run sold_trace genesis))) 1) = 0 \<and>
   fst (transact (caller bidder_A 0 0) (CreateMarketSale 1)
     (snd (transact (caller buyer fee 0) (ResellToken 1 0) (run sold_trace genesis)))) = None"
proof -
  have "msg_sender (caller buyer fee 0) \<noteq> this_address (caller buyer fee 0)"
    by (simp add: caller_def buyer_def marketplace_def)
  moreover have "this_address (caller bidder_A 0 0) = this_address (caller buyer fee 0) \<and>
      msg_sender (caller bidder_A 0 0) \<noteq> 0 \<and> msg_value (caller bidder_A 0 0) = 0 \<and>
      can_receive (caller bidder_A 0 0) (marketplace_owner (run sold_trace genesis))"
    by (simp add: sold_run_operator caller_def bidder_A_def operator_def marketplace_def)
  ultimately show ?thesis
    using relist_rules [where e = "caller buyer fee 0" and tid = 1
        and w = "run sold_trace genesis"] sold_run_relist
    by blast
qed

end
